theory Spec2Isabelle
  imports Main "HOL-Library.Sublist"
begin

section \<open>Python values and the builtins the client uses\<close>

text \<open>
  The client handles dynamically typed values: what \<^verbatim>\<open>response.json()\<close> decodes
  (None, booleans, integers, strings, lists, dictionaries with string keys) and what
  callers pass in (the same, and the tuple of \<^verbatim>\<open>*args\<close>). A \<^verbatim>\<open>str\<close> is a list of
  characters, each character standing for the code point of the same number
  (0 to 255). A dictionary is an association list in insertion order with distinct
  keys. Python floats are left out of the embedding.
\<close>

datatype pyval =
    PNone
  | PBool bool
  | PInt int
  | PStr string
  | PList "pyval list"
  | PTuple "pyval list"
  | PDict "(string \<times> pyval) list"

text \<open>
  Exceptions as values. \<^verbatim>\<open>Exception(x)\<close> keeps its argument; the builtin exceptions
  are told apart by class, \<^verbatim>\<open>KeyError\<close> also by the missing key. \<open>JSONDecodeError\<close>
  is what \<^verbatim>\<open>response.json()\<close> raises on a body that is not JSON and
  \<open>RequestException\<close> what the transport raises when no response arrives.
\<close>

datatype error =
    Exception pyval
  | KeyError string
  | TypeError
  | ValueError
  | AttributeError
  | JSONDecodeError
  | RequestException

subsection \<open>Decimal rendering of integers\<close>

definition digit_char :: "nat \<Rightarrow> char" where
  "digit_char d = ''0123456789'' ! (d mod 10)"

fun dec_nat :: "nat \<Rightarrow> string" where
  "dec_nat n = (if n < 10 then [digit_char n] else dec_nat (n div 10) @ [digit_char (n mod 10)])"

declare dec_nat.simps [simp del]

definition py_str_int :: "int \<Rightarrow> string" where
  "py_str_int i = (if i < 0 then CHR ''-'' # dec_nat (nat (- i)) else dec_nat (nat i))"

subsection \<open>\<^verbatim>\<open>repr\<close> and \<^verbatim>\<open>str\<close>\<close>

definition hex_char :: "nat \<Rightarrow> char" where
  "hex_char d = ''0123456789abcdef'' ! (d mod 16)"

definition printable :: "char \<Rightarrow> bool" where
  "printable c = (let n = (of_char c :: nat) in
     32 \<le> n \<and> n < 127 \<or> 161 \<le> n \<and> n \<noteq> 173)"

definition repr_char :: "char \<Rightarrow> char \<Rightarrow> string" where
  "repr_char quote c =
     (if c = quote \<or> c = CHR 0x5C then [CHR 0x5C, c]
      else if c = CHR 0x09 then [CHR 0x5C, CHR ''t'']
      else if c = CHR 0x0A then [CHR 0x5C, CHR ''n'']
      else if c = CHR 0x0D then [CHR 0x5C, CHR ''r'']
      else if printable c then [c]
      else [CHR 0x5C, CHR ''x'', hex_char (of_char c div 16), hex_char (of_char c mod 16)])"

definition repr_str :: "string \<Rightarrow> string" where
  "repr_str s =
     (let quote = (if CHR 0x27 \<in> set s \<and> CHR 0x22 \<notin> set s then CHR 0x22 else CHR 0x27)
      in quote # concat (map (repr_char quote) s) @ [quote])"

fun comma_join :: "string list \<Rightarrow> string" where
  "comma_join [] = []"
| "comma_join [x] = x"
| "comma_join (x # y # ys) = x @ '', '' @ comma_join (y # ys)"

fun py_repr :: "pyval \<Rightarrow> string" where
  "py_repr PNone = ''None''"
| "py_repr (PBool b) = (if b then ''True'' else ''False'')"
| "py_repr (PInt i) = py_str_int i"
| "py_repr (PStr s) = repr_str s"
| "py_repr (PList xs) = ''['' @ comma_join (map py_repr xs) @ '']''"
| "py_repr (PTuple xs) =
     (case xs of [x] \<Rightarrow> ''('' @ py_repr x @ '',)''
      | _ \<Rightarrow> ''('' @ comma_join (map py_repr xs) @ '')'')"
| "py_repr (PDict kvs) =
     ''{'' @ comma_join (map (\<lambda>kv. repr_str (fst kv) @ '': '' @ py_repr (snd kv)) kvs) @ ''}''"

definition py_str :: "pyval \<Rightarrow> string" where
  "py_str v = (case v of PStr s \<Rightarrow> s | _ \<Rightarrow> py_repr v)"

subsection \<open>The formatting operator \<^verbatim>\<open>%\<close>\<close>

text \<open>
  \<^verbatim>\<open>fmt % args\<close> reads the format string from left to right. The source uses the
  conversions \<^verbatim>\<open>%s\<close> (the \<^verbatim>\<open>str\<close> of the next argument) and \<^verbatim>\<open>%d\<close> (the next argument
  as a decimal integer; a value that is not a number raises \<^verbatim>\<open>TypeError\<close>); \<^verbatim>\<open>%%\<close> is a
  literal percent sign. Flags, widths and the other conversion characters do not occur
  in the source; the interpreter answers \<open>ValueError\<close> for them. Too few arguments and
  arguments left over are both \<^verbatim>\<open>TypeError\<close>.
\<close>

definition conv_d :: "pyval \<Rightarrow> error + string" where
  "conv_d v = (case v of PInt i \<Rightarrow> Inr (py_str_int i)
     | PBool b \<Rightarrow> Inr (py_str_int (if b then 1 else 0))
     | _ \<Rightarrow> Inl TypeError)"

definition then_append :: "string \<Rightarrow> error + string \<Rightarrow> error + string" where
  "then_append s r = (case r of Inl e \<Rightarrow> Inl e | Inr t \<Rightarrow> Inr (s @ t))"

fun py_format :: "string \<Rightarrow> pyval list \<Rightarrow> error + string" where
  "py_format [] [] = Inr []"
| "py_format [] (a # as) = Inl TypeError"
| "py_format [c] as = (if c = CHR ''%'' then Inl ValueError else then_append [c] (py_format [] as))"
| "py_format (c # k # fs) as =
     (if c \<noteq> CHR ''%'' then then_append [c] (py_format (k # fs) as)
      else if k = CHR ''%'' then then_append ''%'' (py_format fs as)
      else if k = CHR ''s'' then
        (case as of [] \<Rightarrow> Inl TypeError
         | a # as' \<Rightarrow> then_append (py_str a) (py_format fs as'))
      else if k = CHR ''d'' then
        (case as of [] \<Rightarrow> Inl TypeError
         | a # as' \<Rightarrow>
            (case conv_d a of Inl e \<Rightarrow> Inl e
             | Inr s \<Rightarrow> then_append s (py_format fs as')))
      else Inl ValueError)"

subsection \<open>Subscription and comparison\<close>

text \<open>
  \<^verbatim>\<open>obj[key]\<close> with a string key: a dictionary answers the value or raises
  \<^verbatim>\<open>KeyError\<close>; every other value raises \<^verbatim>\<open>TypeError\<close> (a sequence wants integer
  indices, the rest is not subscriptable).
\<close>

definition py_getitem :: "pyval \<Rightarrow> string \<Rightarrow> error + pyval" where
  "py_getitem obj key = (case obj of
       PDict kvs \<Rightarrow> (case map_of kvs key of None \<Rightarrow> Inl (KeyError key) | Some v \<Rightarrow> Inr v)
     | _ \<Rightarrow> Inl TypeError)"

text \<open>
  \<^verbatim>\<open>x != k\<close> for an integer literal \<^verbatim>\<open>k\<close>: integers compare by value, \<^verbatim>\<open>True\<close> and
  \<^verbatim>\<open>False\<close> are the integers 1 and 0, and a value of any other type differs from
  every integer.
\<close>

definition py_ne_int :: "pyval \<Rightarrow> int \<Rightarrow> bool" where
  "py_ne_int x k = (case x of PInt i \<Rightarrow> i \<noteq> k
     | PBool b \<Rightarrow> (if b then 1 else 0) \<noteq> k
     | _ \<Rightarrow> True)"

subsection \<open>\<^verbatim>\<open>str.split\<close> and \<^verbatim>\<open>str.strip\<close>\<close>

text \<open>
  \<^verbatim>\<open>s.split(sep)\<close> scans \<^verbatim>\<open>s\<close> from the left, closing the current segment at every
  occurrence of \<^verbatim>\<open>sep\<close>; the text after the last occurrence is the last segment, so the
  result is never empty. An empty separator raises \<^verbatim>\<open>ValueError\<close>.
\<close>

function split_from :: "string \<Rightarrow> string \<Rightarrow> string \<Rightarrow> string list" where
  "split_from sep cur [] = [cur]"
| "split_from sep cur (c # cs) =
     (if sep \<noteq> [] \<and> prefix sep (c # cs)
      then cur # split_from sep [] (drop (length sep) (c # cs))
      else split_from sep (cur @ [c]) cs)"
  by pat_completeness auto
termination
  by (relation "measure (\<lambda>(sep, cur, s). length s)") auto

definition py_split :: "string \<Rightarrow> string \<Rightarrow> error + string list" where
  "py_split s sep = (if sep = [] then Inl ValueError else Inr (split_from sep [] s))"

text \<open>
  The characters \<^verbatim>\<open>str.strip()\<close> removes: the code points below 256 for which
  \<^verbatim>\<open>str.isspace\<close> holds (tab to carriage return, the four separators 0x1C to 0x1F,
  space, 0x85 and 0xA0).
\<close>

definition is_space :: "char \<Rightarrow> bool" where
  "is_space c = (let n = (of_char c :: nat) in
     9 \<le> n \<and> n \<le> 13 \<or> 28 \<le> n \<and> n \<le> 32 \<or> n = 133 \<or> n = 160)"

definition py_strip :: "string \<Rightarrow> string" where
  "py_strip s = rev (dropWhile is_space (rev (dropWhile is_space s)))"

section \<open>The HTTP transport\<close>

text \<open>
  \<^verbatim>\<open>requests.get(url)\<close> and \<^verbatim>\<open>requests.put(url, data=data)\<close> hand a request to the
  server and return its response, or raise. Of a response the client reads
  \<^verbatim>\<open>status_code\<close> and \<^verbatim>\<open>json()\<close>, the decoded body, which raises on a body that does
  not decode. The server is a parameter of every operation.
\<close>

datatype http_method = GET | PUT

record request =
  verb :: http_method
  url :: string
  data :: "(string \<times> pyval) list option"

record response =
  status_code :: int
  json :: "error + pyval"

type_synonym server = "request \<Rightarrow> error + response"

section \<open>The Device client\<close>

record Device =
  address :: string
  device_type :: string
  device_number :: int
  api_version :: int
  base_url :: string

text \<open>
  \<^verbatim>\<open>Device.__init__\<close>: the four attributes are stored as given and the base URL is
  formatted from all five arguments.
\<close>

definition Device_init :: "string \<Rightarrow> string \<Rightarrow> int \<Rightarrow> string \<Rightarrow> int \<Rightarrow> error + Device" where
  "Device_init address' device_type' device_number' protocall api_version' =
     (case py_format ''%s://%s/api/v%d/%s/%d''
             [PStr protocall, PStr address', PInt api_version', PStr device_type',
              PInt device_number'] of
        Inl e \<Rightarrow> Inl e
      | Inr u \<Rightarrow> Inr \<lparr>address = address', device_type = device_type',
                     device_number = device_number', api_version = api_version',
                     base_url = u\<rparr>)"

text \<open>
  A method runs in a world made of the client object and the requests sent so far, in
  order; it returns a value or raises, and leaves a world behind.
\<close>

record world =
  self :: Device
  sent :: "request list"

type_synonym 'a io = "world \<Rightarrow> (error + 'a) \<times> world"

definition return_io :: "'a \<Rightarrow> 'a io" where
  "return_io x w = (Inr x, w)"

definition raise :: "error \<Rightarrow> 'a io" where
  "raise e w = (Inl e, w)"

definition eval_io :: "error + 'a \<Rightarrow> 'a io" where
  "eval_io r w = (r, w)"

definition bind_io :: "'a io \<Rightarrow> ('a \<Rightarrow> 'b io) \<Rightarrow> 'b io" where
  "bind_io m f w = (case m w of (Inl e, w') \<Rightarrow> (Inl e, w') | (Inr x, w') \<Rightarrow> f x w')"

definition read_self :: "(Device \<Rightarrow> 'a) \<Rightarrow> 'a io" where
  "read_self field w = (Inr (field (self w)), w)"

definition requests_get :: "server \<Rightarrow> string \<Rightarrow> response io" where
  "requests_get srv u w =
     (let req = \<lparr>verb = GET, url = u, data = None\<rparr>
      in (srv req, w\<lparr>sent := sent w @ [req]\<rparr>))"

definition requests_put :: "server \<Rightarrow> string \<Rightarrow> (string \<times> pyval) list \<Rightarrow> response io" where
  "requests_put srv u d w =
     (let req = \<lparr>verb = PUT, url = u, data = Some d\<rparr>
      in (srv req, w\<lparr>sent := sent w @ [req]\<rparr>))"

text \<open>\<^verbatim>\<open>response.json()[key]\<close>: decode the body, then subscript.\<close>

definition json_item :: "response \<Rightarrow> string \<Rightarrow> pyval io" where
  "json_item response key =
     bind_io (eval_io (json response)) (\<lambda>body. eval_io (py_getitem body key))"

text \<open>\<^verbatim>\<open>Device.__check_error\<close>.\<close>

definition Device_check_error :: "response \<Rightarrow> unit io" where
  "Device_check_error response =
     bind_io (json_item response ''ErrorNumber'') (\<lambda>n.
       if py_ne_int n 0 then
         bind_io (json_item response ''ErrorNumber'') (\<lambda>num.
         bind_io (json_item response ''ErrorMessage'') (\<lambda>msg.
         bind_io (eval_io (py_format ''Error %d: %s'' [num, msg])) (\<lambda>text.
         raise (Exception (PStr text)))))
       else if status_code response = 400 \<or> status_code response = 500 then
         bind_io (json_item response ''Value'') (\<lambda>v. raise (Exception v))
       else return_io ())"

text \<open>\<^verbatim>\<open>Device._get\<close> and \<^verbatim>\<open>Device._put\<close>.\<close>

definition Device_get :: "server \<Rightarrow> string \<Rightarrow> pyval io" where
  "Device_get srv attribute =
     bind_io (read_self base_url) (\<lambda>b.
     bind_io (eval_io (py_format ''%s/%s'' [PStr b, PStr attribute])) (\<lambda>u.
     bind_io (requests_get srv u) (\<lambda>response.
     bind_io (Device_check_error response) (\<lambda>_.
     json_item response ''Value''))))"

definition Device_put :: "server \<Rightarrow> string \<Rightarrow> (string \<times> pyval) list \<Rightarrow> pyval io" where
  "Device_put srv attribute d =
     bind_io (read_self base_url) (\<lambda>b.
     bind_io (eval_io (py_format ''%s/%s'' [PStr b, PStr attribute])) (\<lambda>u.
     bind_io (requests_put srv u d) (\<lambda>response.
     bind_io (Device_check_error response) (\<lambda>_.
     eval_io (json response)))))"

text \<open>The public methods, in the order of the source.\<close>

definition action :: "server \<Rightarrow> pyval \<Rightarrow> pyval list \<Rightarrow> pyval io" where
  "action srv action' args =
     bind_io (Device_put srv ''action'' [(''Action'', action'), (''Parameters'', PTuple args)])
       (\<lambda>body. eval_io (py_getitem body ''Value''))"

definition commandblind :: "server \<Rightarrow> pyval \<Rightarrow> pyval \<Rightarrow> pyval io" where
  "commandblind srv command raw =
     bind_io (Device_put srv ''commandblind'' [(''Command'', command), (''Raw'', raw)])
       (\<lambda>body. eval_io (py_getitem body ''Value''))"

definition commandbool :: "server \<Rightarrow> pyval \<Rightarrow> pyval \<Rightarrow> pyval io" where
  "commandbool srv command raw =
     bind_io (Device_put srv ''commandbool'' [(''Command'', command), (''Raw'', raw)])
       (\<lambda>body. eval_io (py_getitem body ''Value''))"

definition commandstring :: "server \<Rightarrow> pyval \<Rightarrow> pyval \<Rightarrow> pyval io" where
  "commandstring srv command raw =
     bind_io (Device_put srv ''commandstring'' [(''Command'', command), (''Raw'', raw)])
       (\<lambda>body. eval_io (py_getitem body ''Value''))"

definition connected :: "server \<Rightarrow> pyval \<Rightarrow> pyval io" where
  "connected srv connected' =
     (if connected' = PNone then Device_get srv ''connected''
      else bind_io (Device_put srv ''connected'' [(''Connected'', connected')])
             (\<lambda>_. return_io PNone))"

definition description :: "server \<Rightarrow> pyval io" where
  "description srv = Device_get srv ''name''"

text \<open>
  \<^verbatim>\<open>driverinfo\<close>: \<^verbatim>\<open>.split\<close> exists on strings only, so any other value raises
  \<^verbatim>\<open>AttributeError\<close>.
\<close>

definition str_split :: "pyval \<Rightarrow> string \<Rightarrow> error + string list" where
  "str_split v sep = (case v of PStr s \<Rightarrow> py_split s sep | _ \<Rightarrow> Inl AttributeError)"

definition driverinfo :: "server \<Rightarrow> pyval io" where
  "driverinfo srv =
     bind_io (Device_get srv ''driverinfo'') (\<lambda>v.
     bind_io (eval_io (str_split v '','')) (\<lambda>parts.
     return_io (PList (map (\<lambda>i. PStr (py_strip i)) parts))))"

definition driverversion :: "server \<Rightarrow> pyval io" where
  "driverversion srv = Device_get srv ''driverversion''"

definition interfaceversion :: "server \<Rightarrow> pyval io" where
  "interfaceversion srv = Device_get srv ''interfaceversion''"

definition name :: "server \<Rightarrow> pyval io" where
  "name srv = Device_get srv ''name''"

definition supportedactions :: "server \<Rightarrow> pyval io" where
  "supportedactions srv = Device_get srv ''supportedactions''"

section \<open>Notions of the specification\<close>

text \<open>
  The request a GET or a PUT of an attribute puts on the wire, the world after a request
  has been sent, and the error a protocol-level failure raises.
\<close>

definition get_request :: "world \<Rightarrow> string \<Rightarrow> request" where
  "get_request w attribute =
     \<lparr>verb = GET, url = base_url (self w) @ ''/'' @ attribute, data = None\<rparr>"

definition put_request :: "world \<Rightarrow> string \<Rightarrow> (string \<times> pyval) list \<Rightarrow> request" where
  "put_request w attribute d =
     \<lparr>verb = PUT, url = base_url (self w) @ ''/'' @ attribute, data = Some d\<rparr>"

definition after_send :: "world \<Rightarrow> request \<Rightarrow> world" where
  "after_send w req = w\<lparr>sent := sent w @ [req]\<rparr>"

definition protocol_error :: "int \<Rightarrow> string \<Rightarrow> error" where
  "protocol_error n m = Exception (PStr (''Error '' @ py_str_int n @ '': '' @ m))"

text \<open>
  The documented template of the base URL, integers written in decimal, and a reader of
  decimal digits to check the rendering against.
\<close>

definition spec_base_url :: "string \<Rightarrow> string \<Rightarrow> int \<Rightarrow> string \<Rightarrow> int \<Rightarrow> string" where
  "spec_base_url protocol addr version dtype dnumber =
     protocol @ ''://'' @ addr @ ''/api/v'' @ py_str_int version @ ''/'' @ dtype @ ''/'' @
     py_str_int dnumber"

definition digit_value :: "char \<Rightarrow> nat" where
  "digit_value c = of_char c - 48"

definition dec_value :: "string \<Rightarrow> nat" where
  "dec_value s = foldl (\<lambda>acc c. 10 * acc + digit_value c) 0 s"

text \<open>
  What \<^verbatim>\<open>driverinfo\<close> is documented to return: the segments of the string between its
  commas, in order, each without its leading and trailing whitespace.
\<close>

fun spec_segments :: "char \<Rightarrow> string \<Rightarrow> string list" where
  "spec_segments sep [] = [[]]"
| "spec_segments sep (c # cs) =
     (if c = sep then [] # spec_segments sep cs
      else (c # hd (spec_segments sep cs)) # tl (spec_segments sep cs))"

fun spec_join :: "char \<Rightarrow> string list \<Rightarrow> string" where
  "spec_join sep [] = []"
| "spec_join sep [x] = x"
| "spec_join sep (x # y # ys) = x @ sep # spec_join sep (y # ys)"

fun spec_trim_right :: "string \<Rightarrow> string" where
  "spec_trim_right [] = []"
| "spec_trim_right (c # cs) = (if is_space c \<and> spec_trim_right cs = [] then [] else c # spec_trim_right cs)"

definition spec_trim :: "string \<Rightarrow> string" where
  "spec_trim s = spec_trim_right (dropWhile is_space s)"

definition spec_driverinfo :: "string \<Rightarrow> string list" where
  "spec_driverinfo s = map spec_trim (spec_segments (CHR '','') s)"

text \<open>
  A response the error check lets through: the body is a dictionary whose
  \<^verbatim>\<open>ErrorNumber\<close> equals 0 and the status is neither 400 nor 500.
\<close>

definition succeeds :: "response \<Rightarrow> (string \<times> pyval) list \<Rightarrow> bool" where
  "succeeds r kvs =
     (json r = Inr (PDict kvs) \<and>
      (case map_of kvs ''ErrorNumber'' of None \<Rightarrow> False | Some en \<Rightarrow> \<not> py_ne_int en 0) \<and>
      status_code r \<noteq> 400 \<and> status_code r \<noteq> 500)"

section \<open>Example inputs\<close>

text \<open>
  A client for telescope 0 of a local server, a world in which it has sent nothing yet,
  the three-field envelope, and a server that answers every request alike.
\<close>

definition example_client :: Device where
  "example_client =
     \<lparr>address = ''localhost:11111'', device_type = ''telescope'', device_number = 0,
      api_version = 1, base_url = ''http://localhost:11111/api/v1/telescope/0''\<rparr>"

definition example_world :: world where
  "example_world = \<lparr>self = example_client, sent = []\<rparr>"

definition envelope :: "pyval \<Rightarrow> int \<Rightarrow> string \<Rightarrow> (string \<times> pyval) list" where
  "envelope v n m = [(''Value'', v), (''ErrorNumber'', PInt n), (''ErrorMessage'', PStr m)]"

definition reply :: "int \<Rightarrow> (string \<times> pyval) list \<Rightarrow> response" where
  "reply code kvs = \<lparr>status_code = code, json = Inr (PDict kvs)\<rparr>"

definition always :: "response \<Rightarrow> server" where
  "always r req = Inr r"

section \<open>Properties of the builtins\<close>

lemma digit_value_digit_char: "d < 10 \<Longrightarrow> digit_value (digit_char d) = d"
proof -
  assume "d < 10"
  then have "d \<in> {0, 1, 2, 3, 4, 5, 6, 7, 8, 9}"
    by auto
  then show ?thesis
    by (auto simp: digit_value_def digit_char_def)
qed

lemma dec_value_dec_nat: "dec_value (dec_nat n) = n"
proof (induction n rule: dec_nat.induct)
  case (1 n)
  show ?case
  proof (cases "n < 10")
    case True
    then show ?thesis
      by (simp add: dec_nat.simps [of n] dec_value_def digit_value_digit_char)
  next
    case False
    with 1 have "dec_value (dec_nat (n div 10)) = n div 10" by simp
    with False show ?thesis
      by (simp add: dec_nat.simps [of n] dec_value_def digit_value_digit_char)
  qed
qed

lemma then_append_Inr [simp]: "then_append s (Inr t) = Inr (s @ t)"
  by (simp add: then_append_def)

lemma then_append_Inl [simp]: "then_append s (Inl e) = Inl e"
  by (simp add: then_append_def)

lemma py_str_PStr [simp]: "py_str (PStr s) = s"
  by (simp add: py_str_def)

lemma conv_d_PInt [simp]: "conv_d (PInt i) = Inr (py_str_int i)"
  by (simp add: conv_d_def)

lemma format_attribute_url: "py_format ''%s/%s'' [PStr b, PStr a] = Inr (b @ ''/'' @ a)"
  by simp

lemma format_error_text:
  "py_format ''Error %d: %s'' [PInt n, PStr m] = Inr (''Error '' @ py_str_int n @ '': '' @ m)"
  by simp

lemma spec_segments_not_Nil [simp]: "spec_segments sep s \<noteq> []"
  by (induction s) auto

lemma spec_join_Cons: "ys \<noteq> [] \<Longrightarrow> spec_join sep (x # ys) = x @ sep # spec_join sep ys"
  by (cases ys) auto

lemma spec_join_segments: "spec_join sep (spec_segments sep s) = s"
proof (induction s)
  case Nil
  show ?case by simp
next
  case (Cons c cs)
  obtain f fs where f: "spec_segments sep cs = f # fs"
    by (cases "spec_segments sep cs") auto
  with Cons show ?case
    by (cases fs) (auto simp: spec_join_Cons)
qed

lemma spec_segments_no_sep: "x \<in> set (spec_segments sep s) \<Longrightarrow> sep \<notin> set x"
proof (induction s arbitrary: x)
  case Nil
  then show ?case by simp
next
  case (Cons c cs)
  obtain f fs where f: "spec_segments sep cs = f # fs"
    by (cases "spec_segments sep cs") auto
  with Cons show ?case
    by (auto split: if_splits)
qed

lemma split_from_segments:
  "split_from [sep] cur s = (cur @ hd (spec_segments sep s)) # tl (spec_segments sep s)"
  by (induction s arbitrary: cur) auto

lemma py_split_segments: "py_split s [sep] = Inr (spec_segments sep s)"
  by (simp add: py_split_def split_from_segments)

lemma spec_trim_right_Nil_iff: "spec_trim_right s = [] \<longleftrightarrow> (\<forall>c \<in> set s. is_space c)"
  by (induction s) auto

lemma spec_trim_right_rev: "rev (dropWhile is_space (rev s)) = spec_trim_right s"
proof (induction s)
  case Nil
  show ?case by simp
next
  case (Cons c cs)
  show ?case
  proof (cases "\<forall>x \<in> set cs. is_space x")
    case True
    then have "spec_trim_right cs = []" by (simp add: spec_trim_right_Nil_iff)
    with True show ?thesis by (simp add: dropWhile_append)
  next
    case False
    then have "spec_trim_right cs \<noteq> []" by (simp add: spec_trim_right_Nil_iff)
    moreover from False
    have "dropWhile is_space (rev cs @ [c]) = dropWhile is_space (rev cs) @ [c]"
      by (simp add: dropWhile_append)
    ultimately show ?thesis using Cons by simp
  qed
qed

lemma py_strip_spec_trim: "py_strip s = spec_trim s"
  by (simp add: py_strip_def spec_trim_def spec_trim_right_rev)

lemma spec_trim_right_decomp: "\<exists>r. s = spec_trim_right s @ r \<and> (\<forall>c \<in> set r. is_space c)"
proof (induction s)
  case Nil
  show ?case by simp
next
  case (Cons c cs)
  then obtain r where r: "cs = spec_trim_right cs @ r" "\<forall>c \<in> set r. is_space c" by blast
  show ?case
  proof (cases "is_space c \<and> spec_trim_right cs = []")
    case True
    with r show ?thesis by (auto simp: spec_trim_right_Nil_iff)
  next
    case False
    with r show ?thesis by auto
  qed
qed

lemma spec_trim_decomp:
  "\<exists>l r. s = l @ spec_trim s @ r \<and> (\<forall>c \<in> set l. is_space c) \<and> (\<forall>c \<in> set r. is_space c)"
proof -
  obtain r where r: "dropWhile is_space s = spec_trim s @ r" "\<forall>c \<in> set r. is_space c"
    using spec_trim_right_decomp [of "dropWhile is_space s"] by (auto simp: spec_trim_def)
  have "s = takeWhile is_space s @ dropWhile is_space s" by simp
  with r have "s = takeWhile is_space s @ spec_trim s @ r" by simp
  moreover have "\<forall>c \<in> set (takeWhile is_space s). is_space c"
    by (auto dest: set_takeWhileD)
  ultimately show ?thesis using r(2) by blast
qed

lemma spec_trim_right_last: "spec_trim_right s \<noteq> [] \<Longrightarrow> \<not> is_space (last (spec_trim_right s))"
  by (induction s) (auto split: if_splits)

lemma spec_trim_right_hd:
  "s \<noteq> [] \<Longrightarrow> \<not> is_space (hd s) \<Longrightarrow>
   hd (spec_trim_right s) = hd s \<and> spec_trim_right s \<noteq> []"
  by (cases s) auto

lemma spec_trim_ends:
  assumes "spec_trim s \<noteq> []"
  shows "\<not> is_space (hd (spec_trim s)) \<and> \<not> is_space (last (spec_trim s))"
proof -
  let ?d = "dropWhile is_space s"
  from assms have d: "?d \<noteq> []"
    unfolding spec_trim_def by (cases ?d) simp_all
  then have "\<not> is_space (hd ?d)" by (simp add: hd_dropWhile)
  with d have "hd (spec_trim s) = hd ?d" by (simp add: spec_trim_def spec_trim_right_hd)
  with \<open>\<not> is_space (hd ?d)\<close> assms show ?thesis
    by (simp add: spec_trim_def spec_trim_right_last)
qed

section \<open>Properties of the primitives\<close>

lemma bind_io_Inr: "m w = (Inr x, w') \<Longrightarrow> bind_io m f w = f x w'"
  by (simp add: bind_io_def)

lemma bind_io_Inl: "m w = (Inl e, w') \<Longrightarrow> bind_io m f w = (Inl e, w')"
  by (simp add: bind_io_def)

lemma json_item_dict:
  "json r = Inr (PDict kvs) \<Longrightarrow>
   json_item r key w = ((case map_of kvs key of None \<Rightarrow> Inl (KeyError key) | Some v \<Rightarrow> Inr v), w)"
  by (simp add: json_item_def bind_io_def eval_io_def py_getitem_def)

lemma check_error_world: "snd (Device_check_error r w) = w"
  by (auto simp: Device_check_error_def json_item_def bind_io_def eval_io_def raise_def
      return_io_def split: sum.splits prod.splits)

lemma check_error_protocol:
  assumes "json r = Inr (PDict kvs)"
    and "map_of kvs ''ErrorNumber'' = Some (PInt n)" and "n \<noteq> 0"
    and "map_of kvs ''ErrorMessage'' = Some (PStr m)"
  shows "Device_check_error r w = (Inl (protocol_error n m), w)"
  using assms
  by (simp add: Device_check_error_def json_item_dict bind_io_def eval_io_def raise_def
      py_ne_int_def protocol_error_def)

lemma check_error_transport:
  assumes "json r = Inr (PDict kvs)"
    and "map_of kvs ''ErrorNumber'' = Some en" and "\<not> py_ne_int en 0"
    and "status_code r = 400 \<or> status_code r = 500"
    and "map_of kvs ''Value'' = Some v"
  shows "Device_check_error r w = (Inl (Exception v), w)"
  using assms
  by (auto simp add: Device_check_error_def json_item_dict bind_io_def raise_def)

lemma check_error_pass:
  assumes "json r = Inr (PDict kvs)"
    and "map_of kvs ''ErrorNumber'' = Some en" and "\<not> py_ne_int en 0"
    and "status_code r \<noteq> 400" and "status_code r \<noteq> 500"
  shows "Device_check_error r w = (Inr (), w)"
  using assms
  by (simp add: Device_check_error_def json_item_dict bind_io_def return_io_def)

lemma check_error_missing:
  assumes "json r = Inr (PDict kvs)" and "map_of kvs ''ErrorNumber'' = None"
  shows "Device_check_error r w = (Inl (KeyError ''ErrorNumber''), w)"
  using assms
  by (simp add: Device_check_error_def json_item_dict bind_io_def)

lemma Device_get_sends:
  "Device_get srv a w =
     (case srv (get_request w a) of
        Inl e \<Rightarrow> (Inl e, after_send w (get_request w a))
      | Inr r \<Rightarrow>
          bind_io (Device_check_error r) (\<lambda>_. json_item r ''Value'')
            (after_send w (get_request w a)))"
  by (simp add: Device_get_def read_self_def requests_get_def bind_io_def eval_io_def
      get_request_def after_send_def Let_def split: sum.splits)

lemma Device_put_sends:
  "Device_put srv a d w =
     (case srv (put_request w a d) of
        Inl e \<Rightarrow> (Inl e, after_send w (put_request w a d))
      | Inr r \<Rightarrow>
          bind_io (Device_check_error r) (\<lambda>_. eval_io (json r))
            (after_send w (put_request w a d)))"
  by (simp add: Device_put_def read_self_def requests_put_def bind_io_def eval_io_def
      put_request_def after_send_def Let_def split: sum.splits)

lemma Device_get_raises:
  assumes "srv (get_request w a) = Inr r"
    and "\<And>w'. Device_check_error r w' = (Inl e, w')"
  shows "Device_get srv a w = (Inl e, after_send w (get_request w a))"
  using assms by (simp add: Device_get_sends bind_io_Inl)

lemma Device_put_raises:
  assumes "srv (put_request w a d) = Inr r"
    and "\<And>w'. Device_check_error r w' = (Inl e, w')"
  shows "Device_put srv a d w = (Inl e, after_send w (put_request w a d))"
  using assms by (simp add: Device_put_sends bind_io_Inl)

lemma Device_get_returns:
  assumes "srv (get_request w a) = Inr r"
    and "\<And>w'. Device_check_error r w' = (Inr (), w')"
    and "json r = Inr (PDict kvs)" and "map_of kvs ''Value'' = Some v"
  shows "Device_get srv a w = (Inr v, after_send w (get_request w a))"
  using assms by (simp add: Device_get_sends bind_io_def json_item_dict)

lemma Device_put_returns:
  assumes "srv (put_request w a d) = Inr r"
    and "\<And>w'. Device_check_error r w' = (Inr (), w')"
    and "json r = Inr body"
  shows "Device_put srv a d w = (Inr body, after_send w (put_request w a d))"
  using assms by (simp add: Device_put_sends bind_io_def eval_io_def)

lemma check_error_worldD: "Device_check_error r w = (res, w') \<Longrightarrow> w' = w"
  using check_error_world [of r w] by simp

lemma Device_get_world: "snd (Device_get srv a w) = after_send w (get_request w a)"
  by (auto simp: Device_get_sends bind_io_def json_item_def eval_io_def
      split: sum.splits prod.splits dest: check_error_worldD)

lemma Device_put_world: "snd (Device_put srv a d w) = after_send w (put_request w a d)"
  by (auto simp: Device_put_sends bind_io_def eval_io_def
      split: sum.splits prod.splits dest: check_error_worldD)

lemma bind_io_world:
  assumes "\<And>x w'. snd (f x w') = w'"
  shows "snd (bind_io m f w) = snd (m w)"
  using assms by (auto simp: bind_io_def split: prod.splits sum.splits)

lemma bind_io_raises: "fst (m w) = Inl e \<Longrightarrow> fst (bind_io m f w) = Inl e"
  by (auto simp: bind_io_def split: prod.splits sum.splits)

lemma eval_io_world: "snd (eval_io r w) = w"
  by (simp add: eval_io_def)

lemma return_io_world: "snd (return_io x w) = w"
  by (simp add: return_io_def)

lemma action_world:
  "snd (action srv a args w) =
     after_send w (put_request w ''action'' [(''Action'', a), (''Parameters'', PTuple args)])"
  by (simp add: action_def bind_io_world eval_io_world Device_put_world)

lemma commandblind_world:
  "snd (commandblind srv c raw w) =
     after_send w (put_request w ''commandblind'' [(''Command'', c), (''Raw'', raw)])"
  by (simp add: commandblind_def bind_io_world eval_io_world Device_put_world)

lemma commandbool_world:
  "snd (commandbool srv c raw w) =
     after_send w (put_request w ''commandbool'' [(''Command'', c), (''Raw'', raw)])"
  by (simp add: commandbool_def bind_io_world eval_io_world Device_put_world)

lemma commandstring_world:
  "snd (commandstring srv c raw w) =
     after_send w (put_request w ''commandstring'' [(''Command'', c), (''Raw'', raw)])"
  by (simp add: commandstring_def bind_io_world eval_io_world Device_put_world)

lemma connected_world:
  "snd (connected srv c w) =
     after_send w (if c = PNone then get_request w ''connected''
                   else put_request w ''connected'' [(''Connected'', c)])"
  by (simp add: connected_def bind_io_world return_io_world Device_get_world Device_put_world)

lemma driverinfo_world:
  "snd (driverinfo srv w) = after_send w (get_request w ''driverinfo'')"
  by (simp add: driverinfo_def bind_io_world eval_io_world return_io_world Device_get_world)

lemma every_operation_raises:
  assumes srv: "\<forall>req. srv req = Inr r"
    and chk: "\<And>w'. Device_check_error r w' = (Inl e, w')"
  shows "fst (Device_get srv attribute w) = Inl e"
    and "fst (Device_put srv attribute d w) = Inl e"
    and "fst (action srv a args w) = Inl e"
    and "fst (commandblind srv c raw w) = Inl e"
    and "fst (commandbool srv c raw w) = Inl e"
    and "fst (commandstring srv c raw w) = Inl e"
    and "fst (connected srv st w) = Inl e"
    and "fst (description srv w) = Inl e"
    and "fst (driverinfo srv w) = Inl e"
    and "fst (driverversion srv w) = Inl e"
    and "fst (interfaceversion srv w) = Inl e"
    and "fst (name srv w) = Inl e"
    and "fst (supportedactions srv w) = Inl e"
proof -
  have g: "fst (Device_get srv x w) = Inl e" for x
    using Device_get_raises [of srv w x r e] srv chk by simp
  have p: "fst (Device_put srv x y w) = Inl e" for x y
    using Device_put_raises [of srv w x y r e] srv chk by simp
  show "fst (Device_get srv attribute w) = Inl e" by (rule g)
  show "fst (Device_put srv attribute d w) = Inl e" by (rule p)
  show "fst (action srv a args w) = Inl e"
    unfolding action_def by (rule bind_io_raises) (rule p)
  show "fst (commandblind srv c raw w) = Inl e"
    unfolding commandblind_def by (rule bind_io_raises) (rule p)
  show "fst (commandbool srv c raw w) = Inl e"
    unfolding commandbool_def by (rule bind_io_raises) (rule p)
  show "fst (commandstring srv c raw w) = Inl e"
    unfolding commandstring_def by (rule bind_io_raises) (rule p)
  show "fst (connected srv st w) = Inl e"
  proof (cases "st = PNone")
    case True
    then show ?thesis by (simp add: connected_def g)
  next
    case False
    have "fst (bind_io (Device_put srv ''connected'' [(''Connected'', st)])
                 (\<lambda>_. return_io PNone) w) = Inl e"
      by (rule bind_io_raises) (rule p)
    with False show ?thesis by (simp add: connected_def)
  qed
  show "fst (description srv w) = Inl e" by (simp add: description_def g)
  show "fst (driverinfo srv w) = Inl e"
    unfolding driverinfo_def by (rule bind_io_raises) (rule g)
  show "fst (driverversion srv w) = Inl e" by (simp add: driverversion_def g)
  show "fst (interfaceversion srv w) = Inl e" by (simp add: interfaceversion_def g)
  show "fst (name srv w) = Inl e" by (simp add: name_def g)
  show "fst (supportedactions srv w) = Inl e" by (simp add: supportedactions_def g)
qed

lemma check_error_succeeds: "succeeds r kvs \<Longrightarrow> Device_check_error r w = (Inr (), w)"
  by (auto simp: succeeds_def split: option.splits intro: check_error_pass)

lemma Device_get_succeeds:
  assumes "srv (get_request w a) = Inr r" and "succeeds r kvs"
    and "map_of kvs ''Value'' = Some v"
  shows "Device_get srv a w = (Inr v, after_send w (get_request w a))"
proof -
  have "Device_check_error r w' = (Inr (), w')" for w'
    using assms(2) by (rule check_error_succeeds)
  moreover have "json r = Inr (PDict kvs)"
    using assms(2) by (simp add: succeeds_def)
  ultimately show ?thesis
    using Device_get_returns [of srv w a r kvs v] assms(1,3) by simp
qed

lemma Device_put_succeeds:
  assumes "srv (put_request w a d) = Inr r" and "succeeds r kvs"
  shows "Device_put srv a d w = (Inr (PDict kvs), after_send w (put_request w a d))"
proof -
  have "Device_check_error r w' = (Inr (), w')" for w'
    using assms(2) by (rule check_error_succeeds)
  moreover have "json r = Inr (PDict kvs)"
    using assms(2) by (simp add: succeeds_def)
  ultimately show ?thesis
    using Device_put_returns [of srv w a d r "PDict kvs"] assms(1) by simp
qed

lemma put_then_value:
  assumes "Device_put srv a d w = (Inr (PDict kvs), w')" and "map_of kvs ''Value'' = Some v"
  shows "bind_io (Device_put srv a d) (\<lambda>body. eval_io (py_getitem body ''Value'')) w = (Inr v, w')"
  using assms by (simp add: bind_io_def eval_io_def py_getitem_def)

section \<open>The claims\<close>

text \<open>
  C1. For every protocol, address, API version, device type and device number, the
  constructor succeeds, stores the four attributes as given and stores as base URL the
  documented template \<^verbatim>\<open>{protocol}://{address}/api/v{api_version}/{device_type}/{device_number}\<close>,
  the two integers written in decimal.
\<close>

theorem Device_init_base_url:
  "Device_init addr dtype dnumber protocol version =
     Inr \<lparr>address = addr, device_type = dtype, device_number = dnumber,
          api_version = version,
          base_url = spec_base_url protocol addr version dtype dnumber\<rparr>"
  by (simp add: Device_init_def spec_base_url_def)

theorem Device_init_base_url_witness:
  "Device_init ''localhost:11111'' ''telescope'' 0 ''http'' 1 = Inr example_client"
  using Device_init_base_url [of "''localhost:11111''" "''telescope''" 0 "''http''" 1]
  by (simp add: spec_base_url_def py_str_int_def dec_nat.simps digit_char_def example_client_def)

text \<open>
  C2. Whenever the decoded envelope has an \<^verbatim>\<open>ErrorNumber\<close> other than 0, every wrapping
  method (and both primitives) raises the exception whose text is
  \<^verbatim>\<open>Error <number>: <message>\<close>, with that number and that message, whatever the HTTP
  status of the response is.
\<close>

theorem protocol_error_raised:
  assumes "\<forall>req. srv req = Inr r"
    and "json r = Inr (PDict kvs)"
    and "map_of kvs ''ErrorNumber'' = Some (PInt n)" and "n \<noteq> 0"
    and "map_of kvs ''ErrorMessage'' = Some (PStr m)"
  shows "fst (action srv a args w) = Inl (protocol_error n m) \<and>
         fst (commandblind srv c raw w) = Inl (protocol_error n m) \<and>
         fst (commandbool srv c raw w) = Inl (protocol_error n m) \<and>
         fst (commandstring srv c raw w) = Inl (protocol_error n m) \<and>
         fst (connected srv st w) = Inl (protocol_error n m) \<and>
         fst (description srv w) = Inl (protocol_error n m) \<and>
         fst (driverinfo srv w) = Inl (protocol_error n m) \<and>
         fst (driverversion srv w) = Inl (protocol_error n m) \<and>
         fst (interfaceversion srv w) = Inl (protocol_error n m) \<and>
         fst (name srv w) = Inl (protocol_error n m) \<and>
         fst (supportedactions srv w) = Inl (protocol_error n m) \<and>
         fst (Device_get srv attribute w) = Inl (protocol_error n m) \<and>
         fst (Device_put srv attribute d w) = Inl (protocol_error n m)"
proof -
  have chk: "Device_check_error r w' = (Inl (protocol_error n m), w')" for w'
    using assms(2-5) by (rule check_error_protocol)
  note ops = every_operation_raises [of srv r "protocol_error n m", OF assms(1) chk]
  show ?thesis by (simp add: ops)
qed

theorem protocol_error_raised_witness:
  "fst (name (always (reply 200 (envelope PNone 1 ''not supported''))) example_world) =
     Inl (Exception (PStr ''Error 1: not supported'')) \<and>
   fst (connected (always (reply 200 (envelope PNone 1 ''not supported''))) (PBool True)
          example_world) =
     Inl (Exception (PStr ''Error 1: not supported'')) \<and>
   fst (action (always (reply 200 (envelope PNone 1 ''not supported''))) (PStr ''park'') []
          example_world) =
     Inl (Exception (PStr ''Error 1: not supported''))"
  using protocol_error_raised [of "always (reply 200 (envelope PNone 1 ''not supported''))"
      "reply 200 (envelope PNone 1 ''not supported'')" "envelope PNone 1 ''not supported''"
      1 "''not supported''" "PStr ''park''" "[]" example_world PNone PNone "PBool True"
      "''name''" "[]"]
  by (simp add: always_def reply_def envelope_def protocol_error_def py_str_int_def
      dec_nat.simps digit_char_def)

text \<open>
  C3. Whenever the envelope's \<^verbatim>\<open>ErrorNumber\<close> equals 0 and the HTTP status is 400 or
  500, every operation raises \<^verbatim>\<open>Exception(Value)\<close>: the exception's argument is exactly
  the envelope's \<^verbatim>\<open>Value\<close> field.
\<close>

theorem transport_error_raised:
  assumes "\<forall>req. srv req = Inr r"
    and "json r = Inr (PDict kvs)"
    and "map_of kvs ''ErrorNumber'' = Some en" and "\<not> py_ne_int en 0"
    and "status_code r = 400 \<or> status_code r = 500"
    and "map_of kvs ''Value'' = Some v"
  shows "fst (action srv a args w) = Inl (Exception v) \<and>
         fst (commandblind srv c raw w) = Inl (Exception v) \<and>
         fst (commandbool srv c raw w) = Inl (Exception v) \<and>
         fst (commandstring srv c raw w) = Inl (Exception v) \<and>
         fst (connected srv st w) = Inl (Exception v) \<and>
         fst (description srv w) = Inl (Exception v) \<and>
         fst (driverinfo srv w) = Inl (Exception v) \<and>
         fst (driverversion srv w) = Inl (Exception v) \<and>
         fst (interfaceversion srv w) = Inl (Exception v) \<and>
         fst (name srv w) = Inl (Exception v) \<and>
         fst (supportedactions srv w) = Inl (Exception v) \<and>
         fst (Device_get srv attribute w) = Inl (Exception v) \<and>
         fst (Device_put srv attribute d w) = Inl (Exception v)"
proof -
  have chk: "Device_check_error r w' = (Inl (Exception v), w')" for w'
    using assms(2-6) by (rule check_error_transport)
  note ops = every_operation_raises [of srv r "Exception v", OF assms(1) chk]
  show ?thesis by (simp add: ops)
qed

theorem transport_error_raised_witness:
  "fst (name (always (reply 400 (envelope (PStr ''bad request'') 0 ''''))) example_world) =
     Inl (Exception (PStr ''bad request'')) \<and>
   fst (commandbool (always (reply 500 (envelope (PStr ''bad request'') 0 '''')))
          (PStr ''x'') (PBool False) example_world) =
     Inl (Exception (PStr ''bad request''))"
proof -
  let ?e = "envelope (PStr ''bad request'') 0 ''''"
  have "fst (name (always (reply 400 ?e)) example_world) =
          Inl (Exception (PStr ''bad request''))"
    using transport_error_raised [of "always (reply 400 ?e)" "reply 400 ?e" ?e "PInt 0"
        "PStr ''bad request''" PNone "[]" example_world PNone PNone PNone "''name''" "[]"]
    by (simp add: always_def reply_def envelope_def py_ne_int_def)
  moreover
  have "fst (commandbool (always (reply 500 ?e)) (PStr ''x'') (PBool False) example_world) =
          Inl (Exception (PStr ''bad request''))"
    using transport_error_raised [of "always (reply 500 ?e)" "reply 500 ?e" ?e "PInt 0"
        "PStr ''bad request''" PNone "[]" example_world "PStr ''x''" "PBool False" PNone
        "''name''" "[]"]
    by (simp add: always_def reply_def envelope_def py_ne_int_def)
  ultimately show ?thesis by simp
qed

text \<open>
  C4. Whenever the envelope's \<^verbatim>\<open>ErrorNumber\<close> equals 0 and the HTTP status is neither 400
  nor 500 (404 and 503 included), the error check raises nothing: the GET primitive and
  the accessors that pass its result on return the envelope's \<^verbatim>\<open>Value\<close>, the PUT
  primitive returns the whole decoded body, and \<^verbatim>\<open>driverinfo\<close> does what it does on a
  response with the same body and status 200.
\<close>

theorem unchecked_status_returns:
  assumes "\<forall>req. srv req = Inr r"
    and "json r = Inr (PDict kvs)"
    and "map_of kvs ''ErrorNumber'' = Some en" and "\<not> py_ne_int en 0"
    and "status_code r \<noteq> 400" and "status_code r \<noteq> 500"
    and "map_of kvs ''Value'' = Some v"
  shows "Device_check_error r w = (Inr (), w) \<and>
         Device_get srv attribute w = (Inr v, after_send w (get_request w attribute)) \<and>
         Device_put srv attribute d w =
           (Inr (PDict kvs), after_send w (put_request w attribute d)) \<and>
         fst (connected srv PNone w) = Inr v \<and>
         fst (description srv w) = Inr v \<and>
         fst (driverversion srv w) = Inr v \<and>
         fst (interfaceversion srv w) = Inr v \<and>
         fst (name srv w) = Inr v \<and>
         fst (supportedactions srv w) = Inr v \<and>
         driverinfo srv w = driverinfo (always (r\<lparr>status_code := 200\<rparr>)) w"
proof -
  have ok: "succeeds r kvs"
    using assms(2-6) by (simp add: succeeds_def)
  have ok': "succeeds (r\<lparr>status_code := 200\<rparr>) kvs"
    using assms(2-4) by (simp add: succeeds_def)
  have chk: "Device_check_error r w = (Inr (), w)"
    using ok by (rule check_error_succeeds)
  have g: "Device_get srv x w = (Inr v, after_send w (get_request w x))" for x
    using Device_get_succeeds [of srv w x r kvs v] assms(1,7) ok by simp
  have g': "Device_get (always (r\<lparr>status_code := 200\<rparr>)) x w =
              (Inr v, after_send w (get_request w x))" for x
    using Device_get_succeeds [of "always (r\<lparr>status_code := 200\<rparr>)" w x
        "r\<lparr>status_code := 200\<rparr>" kvs v] assms(7) ok'
    by (simp add: always_def)
  have p: "Device_put srv attribute d w =
             (Inr (PDict kvs), after_send w (put_request w attribute d))"
    using Device_put_succeeds [of srv w attribute d r kvs] assms(1) ok by simp
  have di: "driverinfo srv w = driverinfo (always (r\<lparr>status_code := 200\<rparr>)) w"
    by (simp add: driverinfo_def bind_io_def g g')
  show ?thesis
    by (simp add: chk g p di [symmetric] connected_def description_def driverversion_def
        interfaceversion_def name_def supportedactions_def)
qed

theorem unchecked_status_returns_witness:
  "Device_get (always (reply 404 (envelope (PStr ''Scope'') 0 ''''))) ''name'' example_world =
     (Inr (PStr ''Scope''), after_send example_world (get_request example_world ''name'')) \<and>
   Device_put (always (reply 503 (envelope (PStr ''Scope'') 0 ''''))) ''connected''
       [(''Connected'', PBool True)] example_world =
     (Inr (PDict (envelope (PStr ''Scope'') 0 '''')),
      after_send example_world
        (put_request example_world ''connected'' [(''Connected'', PBool True)]))"
proof -
  let ?e = "envelope (PStr ''Scope'') 0 ''''"
  have "Device_get (always (reply 404 ?e)) ''name'' example_world =
          (Inr (PStr ''Scope''), after_send example_world (get_request example_world ''name''))"
    using unchecked_status_returns [of "always (reply 404 ?e)" "reply 404 ?e" ?e "PInt 0"
        "PStr ''Scope''" example_world "''name''" "[]"]
    by (simp add: always_def reply_def envelope_def py_ne_int_def)
  moreover
  have "Device_put (always (reply 503 ?e)) ''connected'' [(''Connected'', PBool True)]
            example_world =
          (Inr (PDict ?e), after_send example_world
             (put_request example_world ''connected'' [(''Connected'', PBool True)]))"
    using unchecked_status_returns [of "always (reply 503 ?e)" "reply 503 ?e" ?e "PInt 0"
        "PStr ''Scope''" example_world "''connected''" "[(''Connected'', PBool True)]"]
    by (simp add: always_def reply_def envelope_def py_ne_int_def)
  ultimately show ?thesis by simp
qed

text \<open>
  C5. On a response that passes the error check, \<^verbatim>\<open>connected()\<close> (the argument left at
  \<^verbatim>\<open>None\<close>) sends one GET to the \<^verbatim>\<open>connected\<close> attribute and returns the envelope's
  \<^verbatim>\<open>Value\<close>; \<^verbatim>\<open>connected(state)\<close> with a state other than \<^verbatim>\<open>None\<close> sends one PUT to
  \<^verbatim>\<open>connected\<close> with the data \<^verbatim>\<open>{Connected: state}\<close> and returns \<^verbatim>\<open>None\<close>.
\<close>

theorem connected_get_or_put:
  assumes "\<forall>req. srv req = Inr r" and "succeeds r kvs"
    and "map_of kvs ''Value'' = Some v"
  shows "connected srv PNone w =
           (Inr v, after_send w (get_request w ''connected'')) \<and>
         (st \<noteq> PNone \<longrightarrow>
            connected srv st w =
              (Inr PNone,
               after_send w (put_request w ''connected'' [(''Connected'', st)])))"
proof -
  have g: "Device_get srv ''connected'' w =
             (Inr v, after_send w (get_request w ''connected''))"
    using Device_get_succeeds [of srv w "''connected''" r kvs v] assms by simp
  have p: "Device_put srv ''connected'' [(''Connected'', st)] w =
             (Inr (PDict kvs),
              after_send w (put_request w ''connected'' [(''Connected'', st)]))"
    using Device_put_succeeds [of srv w "''connected''" "[(''Connected'', st)]" r kvs]
      assms(1,2) by simp
  show ?thesis
    by (simp add: connected_def g bind_io_def p return_io_def)
qed

theorem connected_get_or_put_witness:
  "connected (always (reply 200 (envelope (PBool False) 0 ''''))) PNone example_world =
     (Inr (PBool False),
      \<lparr>self = example_client,
       sent = [\<lparr>verb = GET, url = ''http://localhost:11111/api/v1/telescope/0/connected'',
                data = None\<rparr>]\<rparr>) \<and>
   connected (always (reply 200 (envelope (PBool False) 0 ''''))) (PBool True) example_world =
     (Inr PNone,
      \<lparr>self = example_client,
       sent = [\<lparr>verb = PUT, url = ''http://localhost:11111/api/v1/telescope/0/connected'',
                data = Some [(''Connected'', PBool True)]\<rparr>]\<rparr>)"
  using connected_get_or_put [of "always (reply 200 (envelope (PBool False) 0 ''''))"
      "reply 200 (envelope (PBool False) 0 '''')" "envelope (PBool False) 0 ''''"
      "PBool False" example_world "PBool True"]
  by (simp add: always_def reply_def envelope_def succeeds_def py_ne_int_def after_send_def
      get_request_def put_request_def example_world_def example_client_def)

text \<open>
  C6. For every string the server returns as \<^verbatim>\<open>Value\<close> of \<^verbatim>\<open>driverinfo\<close>, on a response
  that passes the error check, \<^verbatim>\<open>driverinfo()\<close> sends one GET to that attribute and
  returns the list of the comma-separated segments of the string, in their order, each
  without its leading and trailing whitespace. On \<^verbatim>\<open>"A, B ,C"\<close> that is
  \<^verbatim>\<open>["A", "B", "C"]\<close>.
\<close>

theorem driverinfo_refines_spec:
  assumes "srv (get_request w ''driverinfo'') = Inr r" and "succeeds r kvs"
    and "map_of kvs ''Value'' = Some (PStr s)"
  shows "driverinfo srv w =
           (Inr (PList (map PStr (spec_driverinfo s))),
            after_send w (get_request w ''driverinfo''))"
proof -
  have g: "Device_get srv ''driverinfo'' w =
             (Inr (PStr s), after_send w (get_request w ''driverinfo''))"
    using Device_get_succeeds [of srv w "''driverinfo''" r kvs "PStr s"] assms by simp
  have sp: "str_split (PStr s) '','' = Inr (spec_segments (CHR '','') s)"
    by (simp add: str_split_def py_split_segments)
  have "map (\<lambda>i. PStr (py_strip i)) (spec_segments (CHR '','') s) = map PStr (spec_driverinfo s)"
    by (simp add: spec_driverinfo_def py_strip_spec_trim)
  then show ?thesis
    by (simp add: driverinfo_def bind_io_def g sp eval_io_def return_io_def)
qed

theorem driverinfo_refines_spec_witness:
  "driverinfo (always (reply 200 (envelope (PStr ''A, B ,C'') 0 ''''))) example_world =
     (Inr (PList [PStr ''A'', PStr ''B'', PStr ''C'']),
      \<lparr>self = example_client,
       sent = [\<lparr>verb = GET, url = ''http://localhost:11111/api/v1/telescope/0/driverinfo'',
                data = None\<rparr>]\<rparr>)"
  using driverinfo_refines_spec [of "always (reply 200 (envelope (PStr ''A, B ,C'') 0 ''''))"
      example_world "reply 200 (envelope (PStr ''A, B ,C'') 0 '''')"
      "envelope (PStr ''A, B ,C'') 0 ''''" "''A, B ,C''"]
  by (simp add: always_def reply_def envelope_def succeeds_def py_ne_int_def after_send_def
      get_request_def example_world_def example_client_def spec_driverinfo_def spec_trim_def
      is_space_def)

text \<open>
  C7. For every action name and parameter list, when the server's response to the PUT
  passes the error check, \<^verbatim>\<open>action(name, *params)\<close> sends exactly one request, a PUT to
  the \<^verbatim>\<open>action\<close> attribute with the data \<^verbatim>\<open>{Action: name, Parameters: params}\<close>, and
  returns the envelope's \<^verbatim>\<open>Value\<close>. For \<^verbatim>\<open>action("park")\<close> the parameters are the empty
  sequence.
\<close>

theorem action_put:
  assumes "srv (put_request w ''action'' [(''Action'', a), (''Parameters'', PTuple args)]) = Inr r"
    and "succeeds r kvs" and "map_of kvs ''Value'' = Some v"
  shows "action srv a args w =
     (Inr v, after_send w
        (put_request w ''action'' [(''Action'', a), (''Parameters'', PTuple args)]))"
proof -
  let ?d = "[(''Action'', a), (''Parameters'', PTuple args)]"
  have "Device_put srv ''action'' ?d w =
          (Inr (PDict kvs), after_send w (put_request w ''action'' ?d))"
    using Device_put_succeeds [of srv w "''action''" ?d r kvs] assms(1,2) by simp
  then show ?thesis
    unfolding action_def using assms(3) by (rule put_then_value)
qed

theorem action_put_witness:
  "action (always (reply 200 (envelope (PStr ''done'') 0 ''''))) (PStr ''park'') [] example_world =
     (Inr (PStr ''done''),
      \<lparr>self = example_client,
       sent = [\<lparr>verb = PUT, url = ''http://localhost:11111/api/v1/telescope/0/action'',
                data = Some [(''Action'', PStr ''park''), (''Parameters'', PTuple [])]\<rparr>]\<rparr>)"
  using action_put [of "always (reply 200 (envelope (PStr ''done'') 0 ''''))" example_world
      "PStr ''park''" "[]" "reply 200 (envelope (PStr ''done'') 0 '''')"
      "envelope (PStr ''done'') 0 ''''" "PStr ''done''"]
  by (simp add: always_def reply_def envelope_def succeeds_def py_ne_int_def after_send_def
      put_request_def example_world_def example_client_def)

text \<open>
  C8. \<^verbatim>\<open>description()\<close> and \<^verbatim>\<open>name()\<close> each send one GET to the attribute \<^verbatim>\<open>name\<close>;
  whenever the server answers that request alike for both, they return the same result
  and leave the same world, and on a response that passes the error check this result is
  the envelope's \<^verbatim>\<open>Value\<close>.
\<close>

theorem description_name_same:
  assumes "srv1 (get_request w ''name'') = srv2 (get_request w ''name'')"
  shows "description srv1 w = name srv2 w \<and>
         snd (description srv1 w) = after_send w (get_request w ''name'') \<and>
         snd (name srv2 w) = after_send w (get_request w ''name'') \<and>
         (srv1 (get_request w ''name'') = Inr r \<and> succeeds r kvs \<and>
          map_of kvs ''Value'' = Some v \<longrightarrow>
            description srv1 w = (Inr v, after_send w (get_request w ''name'')) \<and>
            name srv2 w = (Inr v, after_send w (get_request w ''name'')))"
proof -
  have eq: "Device_get srv1 ''name'' w = Device_get srv2 ''name'' w"
    using assms by (simp add: Device_get_sends)
  have val: "Device_get srv1 ''name'' w = (Inr v, after_send w (get_request w ''name''))"
    if "srv1 (get_request w ''name'') = Inr r" "succeeds r kvs"
      "map_of kvs ''Value'' = Some v"
    using Device_get_succeeds [of srv1 w "''name''" r kvs v] that by simp
  show ?thesis
    using eq val by (simp add: description_def name_def Device_get_world)
qed

theorem description_name_same_witness:
  "description (always (reply 200 (envelope (PStr ''Scope'') 0 ''''))) example_world =
     name (always (reply 200 (envelope (PStr ''Scope'') 0 ''''))) example_world \<and>
   description (always (reply 200 (envelope (PStr ''Scope'') 0 ''''))) example_world =
     (Inr (PStr ''Scope''),
      \<lparr>self = example_client,
       sent = [\<lparr>verb = GET, url = ''http://localhost:11111/api/v1/telescope/0/name'',
                data = None\<rparr>]\<rparr>)"
  using description_name_same [of "always (reply 200 (envelope (PStr ''Scope'') 0 ''''))"
      example_world "always (reply 200 (envelope (PStr ''Scope'') 0 ''''))"
      "reply 200 (envelope (PStr ''Scope'') 0 '''')" "envelope (PStr ''Scope'') 0 ''''"
      "PStr ''Scope''"]
  by (simp add: always_def reply_def envelope_def succeeds_def py_ne_int_def after_send_def
      get_request_def example_world_def example_client_def)

text \<open>
  C9. No method writes the client object: after the error check, either primitive or
  any public method, whatever the server does, the client of the world left behind is
  the client it started with, so address, device type, device number, API version and
  base URL are unchanged.
\<close>

theorem client_never_written:
  "self (snd (Device_check_error r w)) = self w \<and>
   self (snd (Device_get srv attribute w)) = self w \<and>
   self (snd (Device_put srv attribute d w)) = self w \<and>
   self (snd (action srv a args w)) = self w \<and>
   self (snd (commandblind srv c raw w)) = self w \<and>
   self (snd (commandbool srv c raw w)) = self w \<and>
   self (snd (commandstring srv c raw w)) = self w \<and>
   self (snd (connected srv st w)) = self w \<and>
   self (snd (description srv w)) = self w \<and>
   self (snd (driverinfo srv w)) = self w \<and>
   self (snd (driverversion srv w)) = self w \<and>
   self (snd (interfaceversion srv w)) = self w \<and>
   self (snd (name srv w)) = self w \<and>
   self (snd (supportedactions srv w)) = self w"
  by (simp add: check_error_world Device_get_world Device_put_world action_world
      commandblind_world commandbool_world commandstring_world connected_world
      driverinfo_world description_def driverversion_def interfaceversion_def name_def
      supportedactions_def after_send_def)

text \<open>
  C10. The error check subscripts the decoded body with \<^verbatim>\<open>ErrorNumber\<close> before anything
  else, so on a response whose body is a JSON object without that field every operation
  raises \<^verbatim>\<open>KeyError\<close>, whatever the HTTP status is and whether or not a \<^verbatim>\<open>Value\<close> is
  present: no operation returns.
\<close>

theorem missing_error_number_raises:
  assumes "\<forall>req. srv req = Inr r"
    and "json r = Inr (PDict kvs)"
    and "map_of kvs ''ErrorNumber'' = None"
  shows "fst (action srv a args w) = Inl (KeyError ''ErrorNumber'') \<and>
         fst (commandblind srv c raw w) = Inl (KeyError ''ErrorNumber'') \<and>
         fst (commandbool srv c raw w) = Inl (KeyError ''ErrorNumber'') \<and>
         fst (commandstring srv c raw w) = Inl (KeyError ''ErrorNumber'') \<and>
         fst (connected srv st w) = Inl (KeyError ''ErrorNumber'') \<and>
         fst (description srv w) = Inl (KeyError ''ErrorNumber'') \<and>
         fst (driverinfo srv w) = Inl (KeyError ''ErrorNumber'') \<and>
         fst (driverversion srv w) = Inl (KeyError ''ErrorNumber'') \<and>
         fst (interfaceversion srv w) = Inl (KeyError ''ErrorNumber'') \<and>
         fst (name srv w) = Inl (KeyError ''ErrorNumber'') \<and>
         fst (supportedactions srv w) = Inl (KeyError ''ErrorNumber'') \<and>
         fst (Device_get srv attribute w) = Inl (KeyError ''ErrorNumber'') \<and>
         fst (Device_put srv attribute d w) = Inl (KeyError ''ErrorNumber'')"
proof -
  have chk: "Device_check_error r w' = (Inl (KeyError ''ErrorNumber''), w')" for w'
    using assms(2,3) by (rule check_error_missing)
  note ops = every_operation_raises [of srv r "KeyError ''ErrorNumber''", OF assms(1) chk]
  show ?thesis by (simp add: ops)
qed

theorem missing_error_number_raises_witness:
  "fst (name (always (reply 200 [(''Value'', PStr ''Scope'')])) example_world) =
     Inl (KeyError ''ErrorNumber'') \<and>
   fst (Device_put (always (reply 200 [(''Value'', PStr ''Scope'')])) ''connected''
          [(''Connected'', PBool True)] example_world) =
     Inl (KeyError ''ErrorNumber'')"
  using missing_error_number_raises [of "always (reply 200 [(''Value'', PStr ''Scope'')])"
      "reply 200 [(''Value'', PStr ''Scope'')]" "[(''Value'', PStr ''Scope'')]"
      PNone "[]" example_world PNone PNone PNone "''connected''"
      "[(''Connected'', PBool True)]"]
  by (simp add: always_def reply_def)

end
